theory Spec2Isabelle
  imports Main "HOL-Library.Word"
begin

unbundle bit_operations_syntax

section \<open>Data model of the repository package\<close>

text \<open>
  The Go structs \<^verbatim>\<open>User\<close> and \<^verbatim>\<open>Bookmark\<close> of
  \<^verbatim>\<open>repository/repository.go\<close>. Go's \<^verbatim>\<open>time.Time\<close> has a zero value, which
  a struct literal that does not mention \<^verbatim>\<open>CreatedAt\<close> leaves in the field; it is kept
  apart from every instant the store can hand out. Both structs name their identifier
  \<^verbatim>\<open>ID\<close>; the one of \<^verbatim>\<open>Bookmark\<close> is \<open>BID\<close> here.
\<close>

type_synonym byte = "8 word"

datatype time_Time = ZeroTime | Instant nat

record User =
  ID :: int
  Name :: string
  Email :: string
  APIKey :: string

record Bookmark =
  BID :: int
  UserID :: int
  Title :: string
  URL :: string
  CreatedAt :: time_Time

text \<open>
  Errors are values. \<^verbatim>\<open>fmt.Errorf(format, args..., err)\<close> with a \<^verbatim>\<open>%w\<close> verb
  is kept as the format, its integer arguments and the wrapped error.
\<close>

datatype error =
    ErrEmailTaken
  | ErrInvalidAPIKey
  | ErrNoRows
  | ErrDriver
  | ErrScan
  | ErrEntropy
  | Errorf string "int list" error

section \<open>The store and the entropy source\<close>

text \<open>
  The persistent store is MySQL behind \<^verbatim>\<open>database/sql\<close>; the source holds no
  schema, only the statements it sends. A row of \<^verbatim>\<open>users\<close> has a nullable
  \<^verbatim>\<open>api_key\<close>; a row of \<^verbatim>\<open>bookmarks\<close> gets \<^verbatim>\<open>created_at\<close> from
  the store when it is inserted.
\<close>

record user_row =
  u_id :: int
  u_name :: string
  u_email :: string
  u_api_key :: "string option"

record bookmark_row =
  b_id :: int
  b_user_id :: int
  b_title :: string
  b_url :: string
  b_created_at :: nat

text \<open>
  The stored state: the two tables, each a list in insertion order (an INSERT appends),
  the auto-increment counters, and the time the store would give \<^verbatim>\<open>created_at\<close>.
\<close>

record tables =
  users :: "user_row list"
  bookmarks :: "bookmark_row list"
  next_user_id :: int
  next_bookmark_id :: int
  now :: nat

text \<open>
  The world a repository function runs in:
  \<^item> \<open>store\<close>: the committed tables;
  \<^item> the access path the store takes for a SELECT: none of the statements in the source
    has an ORDER BY, so the rows come in the order of whatever key the store reads them
    by (the primary key, or a secondary index such as one on the owner and the title).
    \<open>user_path\<close> and \<open>bookmark_path\<close> are those keys; rows with equal keys keep
    their insertion order, so a constant key is a scan in insertion order;
  \<^item> the collations of the columns \<^verbatim>\<open>users.email\<close> and \<^verbatim>\<open>bookmarks.title\<close>:
    \<^verbatim>\<open>column = ?\<close> holds when the store's collation of the column takes the stored
    string and the parameter for equal. MySQL's default collations ignore case; a binary
    collation is equality of the strings. The comparison of \<^verbatim>\<open>api_key\<close> is kept as
    equality of the strings;
  \<^item> \<open>faults\<close>: one flag for each call of \<^verbatim>\<open>database/sql\<close> that can fail, in
    the order the calls are made; \<open>True\<close> makes that call fail and have no effect. A
    failed call returns a driver error, except \<^verbatim>\<open>rows.Next\<close>, which returns
    \<^verbatim>\<open>false\<close>. An exhausted script means the store answers;
  \<^item> \<open>entropy\<close>: what \<^verbatim>\<open>crypto/rand\<close> can supply at each read; an exhausted
    script or a short supply is a failed read.
\<close>

record world =
  store :: tables
  user_path :: "user_row \<Rightarrow> nat"
  bookmark_path :: "bookmark_row \<Rightarrow> nat"
  email_collation :: "string \<Rightarrow> string \<Rightarrow> bool"
  title_collation :: "string \<Rightarrow> string \<Rightarrow> bool"
  faults :: "bool list"
  entropy :: "byte list list"

definition fails :: "world \<Rightarrow> bool" where
  "fails w = (case faults w of [] \<Rightarrow> False | f # _ \<Rightarrow> f)"

definition tick :: "world \<Rightarrow> world" where
  "tick w = w\<lparr>faults := tl (faults w)\<rparr>"

subsection \<open>The SQL statements of the source\<close>

record sql_Result =
  last_insert_id :: int
  rows_affected :: int

type_synonym stmt = "tables \<Rightarrow> sql_Result \<times> tables"

text \<open>\<^verbatim>\<open>INSERT INTO users (name, email, api_key) VALUES (?, ?, ?)\<close>\<close>

definition INSERT_users :: "string \<Rightarrow> string \<Rightarrow> string \<Rightarrow> stmt" where
  "INSERT_users name email apiKey t =
     (\<lparr>last_insert_id = next_user_id t, rows_affected = 1\<rparr>,
      t\<lparr>users := users t @
           [\<lparr>u_id = next_user_id t, u_name = name, u_email = email, u_api_key = Some apiKey\<rparr>],
        next_user_id := next_user_id t + 1\<rparr>)"

text \<open>\<^verbatim>\<open>UPDATE users SET api_key = ? WHERE id = ?\<close>\<close>

definition UPDATE_users_api_key :: "string \<Rightarrow> int \<Rightarrow> stmt" where
  "UPDATE_users_api_key apiKey userID t =
     (\<lparr>last_insert_id = 0,
       rows_affected = int (length (filter (\<lambda>u. u_id u = userID) (users t)))\<rparr>,
      t\<lparr>users := map (\<lambda>u. if u_id u = userID then u\<lparr>u_api_key := Some apiKey\<rparr> else u)
                     (users t)\<rparr>)"

text \<open>\<^verbatim>\<open>INSERT INTO bookmarks (user_id, title, url) VALUES (?, ?, ?)\<close>\<close>

definition INSERT_bookmarks :: "int \<Rightarrow> string \<Rightarrow> string \<Rightarrow> stmt" where
  "INSERT_bookmarks userID title url t =
     (\<lparr>last_insert_id = next_bookmark_id t, rows_affected = 1\<rparr>,
      t\<lparr>bookmarks := bookmarks t @
           [\<lparr>b_id = next_bookmark_id t, b_user_id = userID, b_title = title, b_url = url,
             b_created_at = now t\<rparr>],
        next_bookmark_id := next_bookmark_id t + 1\<rparr>)"

text \<open>
  \<^verbatim>\<open>DELETE FROM bookmarks WHERE user_id = ? AND title = ?\<close>, the titles compared
  by the collation \<open>eq\<close> of the column.
\<close>

definition DELETE_bookmarks_title :: "(string \<Rightarrow> string \<Rightarrow> bool) \<Rightarrow> int \<Rightarrow> string \<Rightarrow> stmt" where
  "DELETE_bookmarks_title eq userID title t =
     (\<lparr>last_insert_id = 0,
       rows_affected =
         int (length (filter (\<lambda>b. b_user_id b = userID \<and> eq (b_title b) title)
                        (bookmarks t)))\<rparr>,
      t\<lparr>bookmarks :=
           filter (\<lambda>b. \<not> (b_user_id b = userID \<and> eq (b_title b) title)) (bookmarks t)\<rparr>)"

text \<open>\<^verbatim>\<open>DELETE FROM bookmarks WHERE user_id = ?\<close>\<close>

definition DELETE_bookmarks_user :: "int \<Rightarrow> stmt" where
  "DELETE_bookmarks_user userID t =
     (\<lparr>last_insert_id = 0,
       rows_affected = int (length (filter (\<lambda>b. b_user_id b = userID) (bookmarks t)))\<rparr>,
      t\<lparr>bookmarks := filter (\<lambda>b. b_user_id b \<noteq> userID) (bookmarks t)\<rparr>)"

text \<open>\<^verbatim>\<open>DELETE FROM users WHERE id = ?\<close>\<close>

definition DELETE_users :: "int \<Rightarrow> stmt" where
  "DELETE_users userID t =
     (\<lparr>last_insert_id = 0,
       rows_affected = int (length (filter (\<lambda>u. u_id u = userID) (users t)))\<rparr>,
      t\<lparr>users := filter (\<lambda>u. u_id u \<noteq> userID) (users t)\<rparr>)"

text \<open>The rows a SELECT with the given WHERE clause yields, in the store's order.\<close>

definition SELECT_users :: "world \<Rightarrow> (user_row \<Rightarrow> bool) \<Rightarrow> user_row list" where
  "SELECT_users w cond = sort_key (user_path w) (filter cond (users (store w)))"

definition SELECT_bookmarks :: "world \<Rightarrow> (bookmark_row \<Rightarrow> bool) \<Rightarrow> bookmark_row list" where
  "SELECT_bookmarks w cond = sort_key (bookmark_path w) (filter cond (bookmarks (store w)))"

subsection \<open>The calls of database/sql\<close>

definition db_Exec :: "world \<Rightarrow> stmt \<Rightarrow> (error + sql_Result) \<times> world" where
  "db_Exec w s =
     (if fails w then (Inl ErrDriver, tick w)
      else (case s (store w) of (res, t) \<Rightarrow> (Inr res, (tick w)\<lparr>store := t\<rparr>)))"

definition LastInsertId :: "world \<Rightarrow> sql_Result \<Rightarrow> (error + int) \<times> world" where
  "LastInsertId w res =
     (if fails w then (Inl ErrDriver, tick w) else (Inr (last_insert_id res), tick w))"

definition RowsAffected :: "world \<Rightarrow> sql_Result \<Rightarrow> (error + int) \<times> world" where
  "RowsAffected w res =
     (if fails w then (Inl ErrDriver, tick w) else (Inr (rows_affected res), tick w))"

text \<open>
  \<^verbatim>\<open>db.QueryRow(...).Scan(...)\<close> on a result set: the first row,
  \<^verbatim>\<open>sql.ErrNoRows\<close> when there is none.
\<close>

definition QueryRow_Scan :: "world \<Rightarrow> 'a list \<Rightarrow> (error + 'a) \<times> world" where
  "QueryRow_Scan w rows =
     (if fails w then (Inl ErrDriver, tick w)
      else (case rows of [] \<Rightarrow> (Inl ErrNoRows, tick w) | r # _ \<Rightarrow> (Inr r, tick w)))"

definition db_Query :: "world \<Rightarrow> 'a list \<Rightarrow> (error + 'a list) \<times> world" where
  "db_Query w rows = (if fails w then (Inl ErrDriver, tick w) else (Inr rows, tick w))"

text \<open>
  \<^verbatim>\<open>rows.Next()\<close> on the rows not yet read: \<^verbatim>\<open>true\<close> when a row is
  there and the call reaches it, \<^verbatim>\<open>false\<close> at the end of the result set and also
  when the call fails; the failure is kept for \<^verbatim>\<open>rows.Err()\<close>, which the source
  never calls.
\<close>

definition rows_Next :: "world \<Rightarrow> 'a list \<Rightarrow> bool \<times> world" where
  "rows_Next w rows = (\<not> fails w \<and> rows \<noteq> [], tick w)"

definition rows_Scan :: "world \<Rightarrow> 'a \<Rightarrow> (error + 'a) \<times> world" where
  "rows_Scan w row = (if fails w then (Inl ErrDriver, tick w) else (Inr row, tick w))"

text \<open>
  A transaction works on its own copy of the tables: \<^verbatim>\<open>tx.Exec\<close> changes the copy,
  \<^verbatim>\<open>tx.Commit\<close> installs it, a commit that reports an error installs nothing, and
  \<^verbatim>\<open>tx.Rollback\<close> drops the copy (its result is ignored by the source; after a
  \<^verbatim>\<open>Commit\<close> it is \<^verbatim>\<open>ErrTxDone\<close> without a call to the store).
\<close>

definition db_Begin :: "world \<Rightarrow> (error + tables) \<times> world" where
  "db_Begin w = (if fails w then (Inl ErrDriver, tick w) else (Inr (store w), tick w))"

definition tx_Exec :: "world \<Rightarrow> tables \<Rightarrow> stmt \<Rightarrow> (error + sql_Result \<times> tables) \<times> world" where
  "tx_Exec w tx s = (if fails w then (Inl ErrDriver, tick w) else (Inr (s tx), tick w))"

definition tx_Commit :: "world \<Rightarrow> tables \<Rightarrow> (error + unit) \<times> world" where
  "tx_Commit w tx =
     (if fails w then (Inl ErrDriver, tick w) else (Inr (), (tick w)\<lparr>store := tx\<rparr>))"

definition tx_Rollback :: "world \<Rightarrow> world" where
  "tx_Rollback w = tick w"

subsection \<open>crypto/rand and encoding/hex\<close>

text \<open>
  \<^verbatim>\<open>rand.Read(b)\<close> fills \<^verbatim>\<open>b\<close> completely or returns an error
  (\<^verbatim>\<open>n == len(b)\<close> if and only if \<^verbatim>\<open>err == nil\<close>).
\<close>

definition rand_Read :: "nat \<Rightarrow> world \<Rightarrow> (error + byte list) \<times> world" where
  "rand_Read n w =
     (case entropy w of
        [] \<Rightarrow> (Inl ErrEntropy, w)
      | bs # rest \<Rightarrow>
          if length bs < n then (Inl ErrEntropy, w\<lparr>entropy := rest\<rparr>)
          else (Inr (take n bs), w\<lparr>entropy := rest\<rparr>))"

definition hextable :: string where
  "hextable = ''0123456789abcdef''"

text \<open>
  \<^verbatim>\<open>hex.EncodeToString\<close>: two characters for each byte, the high nibble first
  (\<^verbatim>\<open>hextable[v>>4]\<close>, \<^verbatim>\<open>hextable[v&0x0f]\<close>).
\<close>

fun hex_EncodeToString :: "byte list \<Rightarrow> string" where
  "hex_EncodeToString [] = []"
| "hex_EncodeToString (v # vs) =
     hextable ! unat (drop_bit 4 v) # hextable ! unat (v AND 0x0f) # hex_EncodeToString vs"

subsection \<open>generateAPIKey\<close>

definition generateAPIKey :: "world \<Rightarrow> (error + string) \<times> world" where
  "generateAPIKey w =
     (case rand_Read 32 w of
        (Inl err, w') \<Rightarrow> (Inl err, w')
      | (Inr bytes, w') \<Rightarrow> (Inr (hex_EncodeToString bytes), w'))"

subsection \<open>CreateUser\<close>

definition CreateUser :: "world \<Rightarrow> string \<Rightarrow> string \<Rightarrow> (error + User) \<times> world" where
  "CreateUser w name email =
     (case QueryRow_Scan w
             [\<exists>u \<in> set (users (store w)). email_collation w (u_email u) email] of
        (Inl err, w1) \<Rightarrow> (Inl err, w1)
      | (Inr exists, w1) \<Rightarrow>
          if exists then (Inl ErrEmailTaken, w1)
          else
            (case generateAPIKey w1 of
               (Inl err, w2) \<Rightarrow> (Inl (Errorf ''could not generate API key: %w'' [] err), w2)
             | (Inr apiKey, w2) \<Rightarrow>
                 (case db_Exec w2 (INSERT_users name email apiKey) of
                    (Inl err, w3) \<Rightarrow> (Inl err, w3)
                  | (Inr res, w3) \<Rightarrow>
                      (case LastInsertId w3 res of
                         (Inl err, w4) \<Rightarrow> (Inl err, w4)
                       | (Inr id64, w4) \<Rightarrow>
                           (Inr \<lparr>ID = id64, Name = name, Email = email, APIKey = apiKey\<rparr>,
                            w4)))))"

subsection \<open>GetUserByAPIKey\<close>

text \<open>
  \<^verbatim>\<open>SELECT id, name, email, api_key FROM users WHERE api_key = ?\<close>, scanned into
  the four fields; \<^verbatim>\<open>Scan\<close> cannot store a NULL in a \<^verbatim>\<open>string\<close>.
\<close>

definition GetUserByAPIKey :: "world \<Rightarrow> string \<Rightarrow> (error + User) \<times> world" where
  "GetUserByAPIKey w apiKey =
     (case QueryRow_Scan w (SELECT_users w (\<lambda>u. u_api_key u = Some apiKey)) of
        (Inl err, w1) \<Rightarrow>
          if err = ErrNoRows then (Inl ErrInvalidAPIKey, w1) else (Inl err, w1)
      | (Inr row, w1) \<Rightarrow>
          (case u_api_key row of
             None \<Rightarrow> (Inl ErrScan, w1)
           | Some key \<Rightarrow>
               (Inr \<lparr>ID = u_id row, Name = u_name row, Email = u_email row, APIKey = key\<rparr>,
                w1)))"

subsection \<open>RegenerateAPIKey\<close>

definition RegenerateAPIKey :: "world \<Rightarrow> int \<Rightarrow> (error + string) \<times> world" where
  "RegenerateAPIKey w userID =
     (case generateAPIKey w of
        (Inl err, w1) \<Rightarrow> (Inl (Errorf ''could not generate new API key: %w'' [] err), w1)
      | (Inr newAPIKey, w1) \<Rightarrow>
          (case db_Exec w1 (UPDATE_users_api_key newAPIKey userID) of
             (Inl err, w2) \<Rightarrow> (Inl (Errorf ''could not update API key: %w'' [] err), w2)
           | (Inr res, w2) \<Rightarrow> (Inr newAPIKey, w2)))"

subsection \<open>CreateBookmark\<close>

definition CreateBookmark ::
  "world \<Rightarrow> int \<Rightarrow> string \<Rightarrow> string \<Rightarrow> (error + Bookmark) \<times> world" where
  "CreateBookmark w userID title url =
     (case db_Exec w (INSERT_bookmarks userID title url) of
        (Inl err, w1) \<Rightarrow> (Inl err, w1)
      | (Inr res, w1) \<Rightarrow>
          (case LastInsertId w1 res of
             (Inl err, w2) \<Rightarrow> (Inl err, w2)
           | (Inr id64, w2) \<Rightarrow>
               (let bm = \<lparr>BID = id64, UserID = userID, Title = title, URL = url,
                          CreatedAt = ZeroTime\<rparr>
                in case QueryRow_Scan w2
                          (map b_created_at (SELECT_bookmarks w2 (\<lambda>b. b_id b = id64))) of
                     (Inl err, w3) \<Rightarrow> (Inl err, w3)
                   | (Inr created_at, w3) \<Rightarrow>
                       (Inr (bm\<lparr>CreatedAt := Instant created_at\<rparr>), w3))))"

subsection \<open>FetchBookmarks\<close>

text \<open>
  The loop \<^verbatim>\<open>for rows.Next() { ... }\<close>: each row reached is scanned and appended;
  the loop ends when \<^verbatim>\<open>rows.Next()\<close> is \<^verbatim>\<open>false\<close>.
\<close>

fun FetchBookmarks_loop ::
  "world \<Rightarrow> int \<Rightarrow> bookmark_row list \<Rightarrow> Bookmark list \<Rightarrow> (error + Bookmark list) \<times> world"
where
  "FetchBookmarks_loop w userID [] list =
     (case rows_Next w ([] :: bookmark_row list) of (has_row, w0) \<Rightarrow> (Inr list, w0))"
| "FetchBookmarks_loop w userID (r # rows) list =
     (case rows_Next w (r # rows) of
        (has_row, w0) \<Rightarrow>
          if has_row then
            (case rows_Scan w0 r of
               (Inl err, w1) \<Rightarrow> (Inl err, w1)
             | (Inr row, w1) \<Rightarrow>
                 FetchBookmarks_loop w1 userID rows
                   (list @ [\<lparr>BID = b_id row, UserID = userID, Title = b_title row,
                             URL = b_url row, CreatedAt = Instant (b_created_at row)\<rparr>]))
          else (Inr list, w0))"

definition FetchBookmarks :: "world \<Rightarrow> int \<Rightarrow> (error + Bookmark list) \<times> world" where
  "FetchBookmarks w userID =
     (case db_Query w (SELECT_bookmarks w (\<lambda>b. b_user_id b = userID)) of
        (Inl err, w1) \<Rightarrow> (Inl err, w1)
      | (Inr rows, w1) \<Rightarrow> FetchBookmarks_loop w1 userID rows [])"

subsection \<open>UpdateExistingUsersWithAPIKey\<close>




subsection \<open>deleteBookmarkByTitle\<close>

definition deleteBookmarkByTitle :: "world \<Rightarrow> int \<Rightarrow> string \<Rightarrow> (error + int) \<times> world" where
  "deleteBookmarkByTitle w userID title =
     (case db_Exec w (DELETE_bookmarks_title (title_collation w) userID title) of
        (Inl err, w1) \<Rightarrow> (Inl err, w1)
      | (Inr res, w1) \<Rightarrow> RowsAffected w1 res)"

subsection \<open>deleteUserAndBookmarks\<close>

definition deleteUserAndBookmarks :: "world \<Rightarrow> int \<Rightarrow> (error + unit) \<times> world" where
  "deleteUserAndBookmarks w userID =
     (case db_Begin w of
        (Inl err, w1) \<Rightarrow> (Inl (Errorf ''could not start the transaction: %w'' [] err), w1)
      | (Inr tx, w1) \<Rightarrow>
          (case tx_Exec w1 tx (DELETE_bookmarks_user userID) of
             (Inl err, w2) \<Rightarrow>
               (Inl (Errorf ''could not delete bookmarks: %w'' [] err), tx_Rollback w2)
           | (Inr (res1, tx1), w2) \<Rightarrow>
               (case tx_Exec w2 tx1 (DELETE_users userID) of
                  (Inl err, w3) \<Rightarrow>
                    (Inl (Errorf ''could not delete user: %w'' [] err), tx_Rollback w3)
                | (Inr (res2, tx2), w3) \<Rightarrow> tx_Commit w3 tx2)))"

section \<open>The HTTP handlers\<close>

text \<open>
  A \<^verbatim>\<open>context.Context\<close> is a chain of key/value pairs; \<^verbatim>\<open>Value\<close> walks it
  from the newest pair and compares keys with \<^verbatim>\<open>==\<close> on interface values, which
  holds only when the dynamic types are the same and the values are equal. A key is
  therefore kept with its type: \<open>StringKey\<close> is a key of type \<^verbatim>\<open>string\<close>,
  \<open>ContextKey\<close> one of the type \<^verbatim>\<open>contextKey\<close> that \<^verbatim>\<open>APIKeyMiddleware\<close>
  declares, \<open>ForeignKey\<close> a key of another package (net/http and chi use pointers
  to their own key types).
\<close>

datatype ctx_key = StringKey string | ContextKey string | ForeignKey nat

datatype any = nil | PtrUser User | OtherValue

type_synonym go_context = "(ctx_key \<times> any) list"

fun ctx_Value :: "go_context \<Rightarrow> ctx_key \<Rightarrow> any" where
  "ctx_Value [] key = nil"
| "ctx_Value ((k, v) # parent) key = (if k = key then v else ctx_Value parent key)"

definition context_WithValue :: "go_context \<Rightarrow> ctx_key \<Rightarrow> any \<Rightarrow> go_context" where
  "context_WithValue parent key val = (key, val) # parent"

text \<open>
  The type assertion \<^verbatim>\<open>x.(*repository.User)\<close> in its one-result form: it panics
  unless the dynamic type of \<^verbatim>\<open>x\<close> is \<^verbatim>\<open>*repository.User\<close>.
\<close>

definition assert_PtrUser :: "any \<Rightarrow> string + User" where
  "assert_PtrUser x =
     (case x of
        nil \<Rightarrow> Inl ''interface conversion: interface {} is nil, not *repository.User''
      | PtrUser u \<Rightarrow> Inr u
      | OtherValue \<Rightarrow> Inl ''interface conversion: interface {} is not *repository.User'')"

text \<open>
  A request: its \<^verbatim>\<open>Authorization\<close> header (empty when absent), its context, and
  the title and URL a JSON decoder reads from its body (\<open>None\<close> when decoding fails).
\<close>

record Request =
  Authorization :: string
  Context :: go_context
  Body :: "(string \<times> string) option"

datatype payload =
    KeyRegenerated string
  | BookmarkJSON Bookmark
  | BookmarksJSON "Bookmark list"

datatype response = http_Error string nat | JSON nat payload

datatype outcome = Panicked string | Served response

type_synonym handler = "world \<Rightarrow> Request \<Rightarrow> outcome \<times> world"

text \<open>\<^verbatim>\<open>strings.Split(s, sep)\<close> for a separator of one character.\<close>

fun strings_Split :: "string \<Rightarrow> char \<Rightarrow> string list" where
  "strings_Split [] sep = [[]]"
| "strings_Split (c # s) sep =
     (if c = sep then [] # strings_Split s sep
      else (case strings_Split s sep of
              [] \<Rightarrow> [[c]]
            | part # parts \<Rightarrow> (c # part) # parts))"

definition APIKeyMiddleware :: "handler \<Rightarrow> handler" where
  "APIKeyMiddleware next w r =
     (let authHeader = Authorization r in
      if authHeader = [] then (Served (http_Error ''Missing Authorization header'' 401), w)
      else
        (let parts = strings_Split authHeader CHR '' '' in
         if length parts \<noteq> 2 then
           (Served (http_Error ''Invalid Authorization header format'' 401), w)
         else if parts ! 0 \<noteq> ''Bearer'' then
           (Served (http_Error ''Invalid Authorization header format'' 401), w)
         else
           (let apiKey = parts ! 1 in
            case GetUserByAPIKey w apiKey of
              (Inl err, w1) \<Rightarrow>
                if err = ErrInvalidAPIKey then
                  (Served (http_Error ''Invalid API key'' 401), w1)
                else (Served (http_Error ''Internal server error'' 500), w1)
            | (Inr user, w1) \<Rightarrow>
                next w1
                  (r\<lparr>Context :=
                       context_WithValue (Context r) (ContextKey ''user'') (PtrUser user)\<rparr>))))"

definition Handler_RegenerateAPIKey :: handler where
  "Handler_RegenerateAPIKey w r =
     (case assert_PtrUser (ctx_Value (Context r) (StringKey ''user'')) of
        Inl p \<Rightarrow> (Panicked p, w)
      | Inr user \<Rightarrow>
          (case RegenerateAPIKey w (ID user) of
             (Inl err, w1) \<Rightarrow> (Served (http_Error ''Internal server error'' 500), w1)
           | (Inr newAPIKey, w1) \<Rightarrow> (Served (JSON 200 (KeyRegenerated newAPIKey)), w1)))"

definition Handler_CreateBookmark :: handler where
  "Handler_CreateBookmark w r =
     (case assert_PtrUser (ctx_Value (Context r) (StringKey ''user'')) of
        Inl p \<Rightarrow> (Panicked p, w)
      | Inr user \<Rightarrow>
          (case Body r of
             None \<Rightarrow> (Served (http_Error ''Invalid request body'' 400), w)
           | Some (title, url) \<Rightarrow>
               (case CreateBookmark w (ID user) title url of
                  (Inl err, w1) \<Rightarrow> (Served (http_Error ''Internal server error'' 500), w1)
                | (Inr bm, w1) \<Rightarrow> (Served (JSON 201 (BookmarkJSON bm)), w1))))"

definition Handler_ListBookmarksForCurrentUser :: handler where
  "Handler_ListBookmarksForCurrentUser w r =
     (case assert_PtrUser (ctx_Value (Context r) (StringKey ''user'')) of
        Inl p \<Rightarrow> (Panicked p, w)
      | Inr user \<Rightarrow>
          (case FetchBookmarks w (ID user) of
             (Inl err, w1) \<Rightarrow> (Served (http_Error ''Internal server error'' 500), w1)
           | (Inr bms, w1) \<Rightarrow> (Served (JSON 200 (BookmarksJSON bms)), w1)))"

section \<open>Vocabulary of the statements\<close>

text \<open>
  The position of the first call that fails, in a script of faults, and the world after
  \<open>n\<close> calls that left the store alone.
\<close>

fun first_fault :: "bool list \<Rightarrow> nat option" where
  "first_fault [] = None"
| "first_fault (f # fs) = (if f then Some 0 else map_option Suc (first_fault fs))"

definition ticks :: "nat \<Rightarrow> world \<Rightarrow> world" where
  "ticks n w = w\<lparr>faults := drop n (faults w)\<rparr>"

text \<open>The store answers the next \<open>n\<close> calls.\<close>

definition answers :: "nat \<Rightarrow> world \<Rightarrow> bool" where
  "answers n w = (True \<notin> set (take n (faults w)))"

text \<open>The \<^verbatim>\<open>Bookmark\<close> that \<^verbatim>\<open>FetchBookmarks\<close> builds from a row.\<close>

definition bookmark_of :: "int \<Rightarrow> bookmark_row \<Rightarrow> Bookmark" where
  "bookmark_of userID row =
     \<lparr>BID = b_id row, UserID = userID, Title = b_title row, URL = b_url row,
      CreatedAt = Instant (b_created_at row)\<rparr>"

text \<open>The bookmarks of an account, in insertion order.\<close>

definition owned :: "world \<Rightarrow> int \<Rightarrow> bookmark_row list" where
  "owned w userID = filter (\<lambda>b. b_user_id b = userID) (bookmarks (store w))"


text \<open>
  The second loop of the sweep takes one read of the entropy source and, when the read
  supplies 32 bytes, one UPDATE for each account. Read \<open>i\<close> of the script \<open>es\<close> is
  \<open>supplied\<close> when it is there and has 32 bytes; UPDATE \<open>i\<close> is \<open>refused\<close> when the
  script \<open>fs\<close> has a fault there. \<open>steps_done\<close> counts the accounts dealt with before
  the first read not supplied or UPDATE refused, among \<open>n\<close> accounts; \<open>assigned\<close> is
  the store after the first \<open>m\<close> UPDATEs, account \<open>i\<close> getting the rendering of read
  \<open>i\<close>.
\<close>

definition supplied :: "byte list list \<Rightarrow> nat \<Rightarrow> bool" where
  "supplied es i \<longleftrightarrow> i < length es \<and> 32 \<le> length (es ! i)"

definition refused :: "bool list \<Rightarrow> nat \<Rightarrow> bool" where
  "refused fs i \<longleftrightarrow> i < length fs \<and> fs ! i"

definition steps_done :: "byte list list \<Rightarrow> bool list \<Rightarrow> nat \<Rightarrow> nat" where
  "steps_done es fs n = length (takeWhile (\<lambda>i. supplied es i \<and> \<not> refused fs i) [0..<n])"

definition key_at :: "byte list list \<Rightarrow> nat \<Rightarrow> string" where
  "key_at es i = hex_EncodeToString (take 32 (es ! i))"

definition assigned :: "tables \<Rightarrow> int list \<Rightarrow> byte list list \<Rightarrow> nat \<Rightarrow> tables" where
  "assigned t ids es m =
     foldl (\<lambda>t i. snd (UPDATE_users_api_key (key_at es i) (ids ! i) t)) t [0..<m]"




text \<open>
  A small store for the concrete instances: Ada holds a key and two bookmarks, Bob has no
  key and one bookmark, Cy has neither.
\<close>

definition example_tables :: tables where
  "example_tables =
     \<lparr>users =
        [\<lparr>u_id = 1, u_name = ''Ada'', u_email = ''ada@example.com'', u_api_key = Some ''k1''\<rparr>,
         \<lparr>u_id = 2, u_name = ''Bob'', u_email = ''bob@example.com'', u_api_key = None\<rparr>,
         \<lparr>u_id = 3, u_name = ''Cy'', u_email = ''cy@example.com'', u_api_key = None\<rparr>],
      bookmarks =
        [\<lparr>b_id = 1, b_user_id = 1, b_title = ''OpenAI'', b_url = ''https://openai.com'',
          b_created_at = 100\<rparr>,
         \<lparr>b_id = 2, b_user_id = 2, b_title = ''Go'', b_url = ''https://go.dev'',
          b_created_at = 101\<rparr>,
         \<lparr>b_id = 3, b_user_id = 1, b_title = ''Docs'', b_url = ''https://go.dev/doc'',
          b_created_at = 102\<rparr>],
      next_user_id = 4, next_bookmark_id = 4, now = 103\<rparr>"

text \<open>
  A store that scans in insertion order and compares with binary collations, with the
  given fault and entropy scripts.
\<close>

definition example_world :: "bool list \<Rightarrow> byte list list \<Rightarrow> world" where
  "example_world fs es =
     \<lparr>store = example_tables, user_path = (\<lambda>u. 0), bookmark_path = (\<lambda>b. 0),
      email_collation = (=), title_collation = (=), faults = fs, entropy = es\<rparr>"

text \<open>Thirty-two bytes for the entropy script, and their rendering.\<close>

definition example_bytes :: "byte list" where
  "example_bytes =
     [0x00, 0x01, 0x02, 0x03, 0x04, 0x05, 0x06, 0x07, 0x08, 0x09, 0x0a, 0x0b, 0x0c, 0x0d, 0x0e, 0x0f,
      0xf0, 0xe1, 0xd2, 0xc3, 0xb4, 0xa5, 0x96, 0x87, 0x78, 0x69, 0x5a, 0x4b, 0x3c, 0x2d, 0x1e, 0x0f]"

definition example_key :: string where
  "example_key = ''000102030405060708090a0b0c0d0e0ff0e1d2c3b4a5968778695a4b3c2d1e0f''"

text \<open>
  A collation that ignores the case of the letters A to Z: it compares the codes of the
  characters with those of the capitals moved to the small letters.
\<close>

definition lower :: "char \<Rightarrow> nat" where
  "lower c =
     (let n = (of_char c :: nat) in if 65 \<le> n \<and> n \<le> 90 then n + 32 else n)"

definition case_insensitive :: "string \<Rightarrow> string \<Rightarrow> bool" where
  "case_insensitive s t \<longleftrightarrow> map lower s = map lower t"

text \<open>An access path that reads bookmarks by the first byte of the title.\<close>

definition title_key :: "bookmark_row \<Rightarrow> nat" where
  "title_key b = (case b_title b of [] \<Rightarrow> 0 | c # _ \<Rightarrow> of_char c)"

section \<open>Facts about the fault script and the entropy source\<close>

lemma store_tick [simp]: "store (tick w) = store w"
  by (simp add: tick_def)

lemma user_path_tick [simp]: "user_path (tick w) = user_path w"
  by (simp add: tick_def)

lemma bookmark_path_tick [simp]: "bookmark_path (tick w) = bookmark_path w"
  by (simp add: tick_def)

lemma entropy_tick [simp]: "entropy (tick w) = entropy w"
  by (simp add: tick_def)

lemma fails_store_update [simp]: "fails (w\<lparr>store := t\<rparr>) = fails w"
  by (simp add: fails_def)

lemma tick_store_update [simp]: "tick (w\<lparr>store := t\<rparr>) = (tick w)\<lparr>store := t\<rparr>"
  by (simp add: tick_def)

lemma fails_entropy_update [simp]: "fails (w\<lparr>entropy := e\<rparr>) = fails w"
  by (simp add: fails_def)

lemma answers_0 [simp]: "answers 0 w"
  by (simp add: answers_def)

lemma answers_Suc: "answers (Suc n) w \<longleftrightarrow> \<not> fails w \<and> answers n (tick w)"
  by (cases "faults w") (auto simp: answers_def fails_def tick_def)

lemma rand_Read_length: "rand_Read n w = (Inr bs, w') \<Longrightarrow> length bs = n"
  by (auto simp: rand_Read_def split: list.splits if_splits)

lemma rand_Read_frame:
  "rand_Read n w = (r, w1) \<Longrightarrow>
   store w1 = store w \<and> fails w1 = fails w \<and> tick w1 = (tick w)\<lparr>entropy := entropy w1\<rparr> \<and>
   user_path w1 = user_path w \<and> bookmark_path w1 = bookmark_path w"
  by (auto simp: rand_Read_def tick_def split: list.splits if_splits)

lemma first_fault_take_Suc:
  "first_fault (take (Suc k) (faults w)) =
     (if fails w then Some 0 else map_option Suc (first_fault (take k (faults (tick w)))))"
  by (cases "faults w") (simp_all add: fails_def tick_def)

lemma first_fault_take_Suc_Suc:
  "first_fault (take (Suc (Suc k)) (faults w)) =
     (if fails w then Some 0
      else if fails (tick w) then Some 1
      else map_option (\<lambda>j. j + 2) (first_fault (take k (faults (tick (tick w))))))"
  by (simp add: first_fault_take_Suc [of _ w] first_fault_take_Suc [of _ "tick w"]
      option.map_comp comp_def)

lemma ticks_0 [simp]: "ticks 0 w = w"
  by (simp add: ticks_def)

lemma ticks_Suc: "ticks (Suc n) w = ticks n (tick w)"
  by (simp add: ticks_def tick_def drop_Suc)

lemma store_ticks [simp]: "store (ticks n w) = store w"
  by (simp add: ticks_def)

lemma entropy_ticks [simp]: "entropy (ticks n w) = entropy w"
  by (simp add: ticks_def)

lemma faults_ticks [simp]: "faults (ticks n w) = drop n (faults w)"
  by (simp add: ticks_def)

lemma answers_first_fault: "answers n w \<longleftrightarrow> first_fault (take n (faults w)) = None"
proof -
  have "True \<notin> set fs \<longleftrightarrow> first_fault fs = None" for fs
    by (induction fs) auto
  then show ?thesis
    by (simp add: answers_def)
qed

section \<open>The secret generator\<close>

lemma high_nibble_lt: "unat (drop_bit 4 (v :: byte)) < 16"
proof -
  have "unat (drop_bit 4 v) = drop_bit 4 (unat v)"
    by (simp add: unat_drop_bit_eq)
  also have "\<dots> = unat v div 2 ^ 4"
    by (rule drop_bit_eq_div)
  finally have "unat (drop_bit 4 v) = unat v div 2 ^ 4" .
  moreover have "unat v < 2 ^ 8"
    using unsigned_less [of v] by simp
  ultimately show ?thesis by simp
qed

lemma low_nibble_lt: "unat ((v :: byte) AND 0x0f) < 16"
proof -
  have "(v AND 0x0f) \<le> 0x0f"
    by (rule word_and_le1)
  then have "unat (v AND 0x0f) \<le> unat (0x0f :: byte)"
    by (simp add: word_le_nat_alt)
  then show ?thesis by simp
qed

lemma hextable_nth: "i < 16 \<Longrightarrow> hextable ! i \<in> set hextable"
proof -
  assume "i < 16"
  then have "i < length hextable"
    by (simp add: hextable_def)
  then show ?thesis
    by (rule nth_mem)
qed

lemma length_hex_EncodeToString: "length (hex_EncodeToString bs) = 2 * length bs"
  by (induction bs) simp_all

lemma set_hex_EncodeToString: "set (hex_EncodeToString bs) \<subseteq> set hextable"
  by (induction bs) (simp_all add: hextable_nth high_nibble_lt low_nibble_lt)

lemma generateAPIKey_Inr:
  "generateAPIKey w = (Inr k, w1) \<Longrightarrow>
   \<exists>bytes. rand_Read 32 w = (Inr bytes, w1) \<and> length bytes = 32 \<and> k = hex_EncodeToString bytes"
  by (auto simp: generateAPIKey_def rand_Read_length split: prod.splits sum.splits)


text \<open>
  C9. On success \<open>generateAPIKey\<close> returns the hexadecimal rendering of exactly the 32
  bytes the entropy source supplied: 64 characters, each of \<open>0123456789abcdef\<close>. When
  the source cannot supply 32 bytes the result is that read's error, unchanged, and no
  key; no other source is consulted.
\<close>

theorem generateAPIKey_contract:
  "(case rand_Read 32 w of
      (Inl err, w') \<Rightarrow> generateAPIKey w = (Inl err, w')
    | (Inr bytes, w') \<Rightarrow>
        generateAPIKey w = (Inr (hex_EncodeToString bytes), w') \<and>
        length bytes = 32 \<and>
        length (hex_EncodeToString bytes) = 64 \<and>
        set (hex_EncodeToString bytes) \<subseteq> set ''0123456789abcdef'')"
proof (cases "rand_Read 32 w")
  case (Pair r w')
  show ?thesis
  proof (cases r)
    case (Inl err)
    with Pair show ?thesis by (simp add: generateAPIKey_def)
  next
    case (Inr bytes)
    with Pair have len: "length bytes = 32"
      by (simp add: rand_Read_length)
    have "set (hex_EncodeToString bytes) \<subseteq> set ''0123456789abcdef''"
      using set_hex_EncodeToString [of bytes] by (simp only: hextable_def)
    with Pair Inr len show ?thesis
      by (simp add: generateAPIKey_def length_hex_EncodeToString)
  qed
qed

section \<open>The example store\<close>

lemma length_example_bytes: "length example_bytes = 32"
  by (simp add: example_bytes_def)

lemma hex_example_bytes: "hex_EncodeToString example_bytes = example_key"
  by (simp add: example_bytes_def example_key_def hextable_def)

lemma rand_Read_example:
  "rand_Read 32 (example_world fs [example_bytes]) = (Inr example_bytes, example_world fs [])"
  by (simp add: rand_Read_def example_world_def example_bytes_def)

lemma generateAPIKey_example:
  "generateAPIKey (example_world fs [example_bytes]) = (Inr example_key, example_world fs [])"
  by (simp add: generateAPIKey_def rand_Read_example hex_example_bytes)

lemma tick_example: "tick (example_world (f # fs) es) = example_world fs es"
  by (simp add: tick_def example_world_def)

lemma tick_example_Nil: "tick (example_world [] es) = example_world [] es"
  by (simp add: tick_def example_world_def)

lemma fails_example: "fails (example_world (f # fs) es) = f"
  by (simp add: fails_def example_world_def)

lemma fails_example_Nil: "\<not> fails (example_world [] es)"
  by (simp add: fails_def example_world_def)

lemma store_example: "store (example_world fs es) = example_tables"
  by (simp add: example_world_def)

lemmas example_simps =
  tick_example tick_example_Nil fails_example fails_example_Nil store_example

theorem generateAPIKey_contract_witness:
  "fst (generateAPIKey (example_world [] [example_bytes])) = Inr example_key \<and>
   length example_key = 64 \<and>
   fst (generateAPIKey (example_world [] [])) = Inl ErrEntropy \<and>
   fst (generateAPIKey (example_world [] [take 31 example_bytes])) = Inl ErrEntropy"
  using generateAPIKey_contract [of "example_world [] [example_bytes]"]
    generateAPIKey_contract [of "example_world [] []"]
    generateAPIKey_contract [of "example_world [] [take 31 example_bytes]"]
  by (simp add: rand_Read_example hex_example_bytes)
    (simp add: rand_Read_def example_world_def length_example_bytes)

section \<open>Account deletion\<close>

text \<open>
  C1. \<open>deleteUserAndBookmarks\<close> makes four calls in a row: \<^verbatim>\<open>Begin\<close>, the two
  \<^verbatim>\<open>tx.Exec\<close> and \<^verbatim>\<open>Commit\<close>. If any of them fails the result is an error and
  the stored tables are exactly what they were. Otherwise the result is success, no
  bookmark of the account and no row of the account remain, and every other row is kept.
\<close>

theorem deleteUserAndBookmarks_all_or_nothing:
  "(case deleteUserAndBookmarks w userID of
      (r, w') \<Rightarrow>
        if fails w \<or> fails (tick w) \<or> fails (tick (tick w)) \<or> fails (tick (tick (tick w)))
        then (\<exists>err. r = Inl err) \<and> store w' = store w
        else r = Inr () \<and>
             store w' =
               (store w)\<lparr>bookmarks := filter (\<lambda>b. b_user_id b \<noteq> userID) (bookmarks (store w)),
                         users := filter (\<lambda>u. u_id u \<noteq> userID) (users (store w))\<rparr> \<and>
             userID \<notin> b_user_id ` set (bookmarks (store w')) \<and>
             userID \<notin> u_id ` set (users (store w')))"
  by (auto simp: deleteUserAndBookmarks_def db_Begin_def tx_Exec_def tx_Commit_def
      tx_Rollback_def DELETE_bookmarks_user_def DELETE_users_def split: prod.splits sum.splits)

theorem deleteUserAndBookmarks_all_or_nothing_witness:
  "deleteUserAndBookmarks (example_world [False, False, True] []) 1 =
     (Inl (Errorf ''could not delete user: %w'' [] ErrDriver), example_world [] []) \<and>
   fst (deleteUserAndBookmarks (example_world [False, False, False, True] []) 1) =
     Inl ErrDriver \<and>
   store (snd (deleteUserAndBookmarks (example_world [False, False, False, True] []) 1)) =
     example_tables \<and>
   fst (deleteUserAndBookmarks (example_world [] []) 1) = Inr () \<and>
   map b_id (bookmarks (store (snd (deleteUserAndBookmarks (example_world [] []) 1)))) = [2] \<and>
   map u_id (users (store (snd (deleteUserAndBookmarks (example_world [] []) 1)))) = [2, 3]"
  using deleteUserAndBookmarks_all_or_nothing [of "example_world [False, False, True] []" 1]
    deleteUserAndBookmarks_all_or_nothing [of "example_world [False, False, False, True] []" 1]
    deleteUserAndBookmarks_all_or_nothing [of "example_world [] []" 1]
  by (simp add: example_world_def example_tables_def deleteUserAndBookmarks_def db_Begin_def
      tx_Exec_def tx_Commit_def tx_Rollback_def DELETE_bookmarks_user_def DELETE_users_def
      fails_def tick_def)

section \<open>Deleting bookmarks by title\<close>

text \<open>
  C8, as the code has it. \<open>deleteBookmarkByTitle\<close> removes exactly the bookmarks of the
  given account whose title the collation of the title column takes for equal to the
  given string, keeps every other bookmark in place and touches nothing else of the
  store, and returns how many rows it removed. When no row matches, the store is
  unchanged and the result is the count 0, not an error. The match is character for
  character when the collation is binary.
\<close>

theorem deleteBookmarkByTitle_collated:
  "(case deleteBookmarkByTitle w userID title of
      (r, w') \<Rightarrow>
        if fails w then r = Inl ErrDriver \<and> store w' = store w
        else
          store w' =
            (store w)\<lparr>bookmarks :=
               filter (\<lambda>b. \<not> (b_user_id b = userID \<and> title_collation w (b_title b) title))
                 (bookmarks (store w))\<rparr> \<and>
          (if fails (tick w) then r = Inl ErrDriver
           else r = Inr (int (length (filter
                    (\<lambda>b. b_user_id b = userID \<and> title_collation w (b_title b) title)
                    (bookmarks (store w)))))) \<and>
          (if filter (\<lambda>b. b_user_id b = userID \<and> title_collation w (b_title b) title)
                (bookmarks (store w)) = []
           then store w' = store w \<and> (fails (tick w) \<or> r = Inr 0)
           else True) \<and>
          (if title_collation w = (=)
           then bookmarks (store w') =
                  filter (\<lambda>b. \<not> (b_user_id b = userID \<and> b_title b = title))
                    (bookmarks (store w))
           else True))"
  by (auto simp: deleteBookmarkByTitle_def db_Exec_def RowsAffected_def
      DELETE_bookmarks_title_def filter_empty_conv filter_id_conv split: prod.splits sum.splits)

theorem deleteBookmarkByTitle_collated_witness:
  "fst (deleteBookmarkByTitle (example_world [] []) 1 ''Docs'') = Inr 1 \<and>
   map b_id (bookmarks (store (snd (deleteBookmarkByTitle (example_world [] []) 1 ''Docs'')))) =
     [1, 2] \<and>
   fst (deleteBookmarkByTitle (example_world [] []) 1 ''Doc'') = Inr 0 \<and>
   store (snd (deleteBookmarkByTitle (example_world [] []) 1 ''Doc'')) = example_tables \<and>
   fst (deleteBookmarkByTitle (example_world [] []) 1 ''docs'') = Inr 0 \<and>
   fst (deleteBookmarkByTitle (example_world [] []) 2 ''Docs'') = Inr 0"
  using deleteBookmarkByTitle_collated [of "example_world [] []" 1 "''Docs''"]
    deleteBookmarkByTitle_collated [of "example_world [] []" 1 "''Doc''"]
    deleteBookmarkByTitle_collated [of "example_world [] []" 1 "''docs''"]
    deleteBookmarkByTitle_collated [of "example_world [] []" 2 "''Docs''"]
  by (simp add: example_world_def example_tables_def deleteBookmarkByTitle_def db_Exec_def
      RowsAffected_def DELETE_bookmarks_title_def fails_def tick_def)

text \<open>
  The claim as stated fails under a collation that ignores case, as MySQL's default ones
  do: no bookmark of Ada has the title \<open>docs\<close> character for character, yet the call
  with \<open>docs\<close> removes her bookmark \<open>Docs\<close> and returns the count 1.
\<close>

theorem deleteBookmarkByTitle_character_counterexample:
  "filter (\<lambda>b. b_user_id b = 1 \<and> b_title b = ''docs'') (bookmarks example_tables) = [] \<and>
   fst (deleteBookmarkByTitle
          ((example_world [] [])\<lparr>title_collation := case_insensitive\<rparr>) 1 ''docs'') = Inr 1 \<and>
   map b_title (bookmarks (store (snd (deleteBookmarkByTitle
          ((example_world [] [])\<lparr>title_collation := case_insensitive\<rparr>) 1 ''docs'')))) =
     [''OpenAI'', ''Go'']"
  by (simp add: example_world_def example_tables_def deleteBookmarkByTitle_def db_Exec_def
      RowsAffected_def DELETE_bookmarks_title_def fails_def tick_def case_insensitive_def
      lower_def Let_def)

section \<open>Listing bookmarks\<close>

lemma FetchBookmarks_loop_exact:
  "FetchBookmarks_loop w userID rows list =
     (case first_fault (take (2 * length rows + 1) (faults w)) of
        None \<Rightarrow>
          (Inr (list @ map (bookmark_of userID) rows), ticks (2 * length rows + 1) w)
      | Some j \<Rightarrow>
          if even j
          then (Inr (list @ map (bookmark_of userID) (take (j div 2) rows)), ticks (Suc j) w)
          else (Inl ErrDriver, ticks (Suc j) w))"
proof (induction rows arbitrary: w list)
  case Nil
  show ?case
    by (simp add: rows_Next_def first_fault_take_Suc ticks_Suc)
next
  case (Cons r rows)
  have len: "2 * length (r # rows) + 1 = Suc (Suc (2 * length rows + 1))"
    by simp
  show ?case
  proof (cases "fails w")
    case True
    then show ?thesis
      unfolding len by (simp add: rows_Next_def first_fault_take_Suc_Suc ticks_Suc)
  next
    case nf: False
    show ?thesis
    proof (cases "fails (tick w)")
      case True
      with nf show ?thesis
        unfolding len
        by (simp add: rows_Next_def rows_Scan_def first_fault_take_Suc_Suc ticks_Suc)
    next
      case False
      have run: "FetchBookmarks_loop w userID (r # rows) list =
          FetchBookmarks_loop (tick (tick w)) userID rows (list @ [bookmark_of userID r])"
        using nf False by (simp add: rows_Next_def rows_Scan_def bookmark_of_def)
      show ?thesis
        unfolding run Cons.IH len
        using nf False
        by (simp add: first_fault_take_Suc_Suc ticks_Suc split: option.splits)
    qed
  qed
qed


text \<open>
  C3, as the code has it. \<open>FetchBookmarks\<close> makes one call for the query and, for each
  row, one \<^verbatim>\<open>rows.Next\<close> and one \<^verbatim>\<open>rows.Scan\<close>, and a last
  \<^verbatim>\<open>rows.Next\<close>. When the store answers them all, the result is exactly the
  bookmarks of the account, in the order in which the store yields the rows: the query
  has no ORDER BY, and the result is in insertion order when the store's access path
  follows insertion order on these rows. For an account with no bookmark it is the empty
  sequence and no error. When the first call to fail is the query or a
  \<^verbatim>\<open>rows.Scan\<close>, the result is that error. The store is never changed.
\<close>

theorem FetchBookmarks_store_order:
  "(case first_fault (take (2 * length (owned w userID) + 2) (faults w)) of
      None \<Rightarrow>
        fst (FetchBookmarks w userID) =
          Inr (map (bookmark_of userID) (sort_key (bookmark_path w) (owned w userID)))
    | Some j \<Rightarrow> if even j then fst (FetchBookmarks w userID) = Inl ErrDriver else True) \<and>
   store (snd (FetchBookmarks w userID)) = store w \<and>
   (answers (2 * length (owned w userID) + 2) w \<and>
    sorted (map (bookmark_path w) (owned w userID)) \<longrightarrow>
      fst (FetchBookmarks w userID) = Inr (map (bookmark_of userID) (owned w userID))) \<and>
   (answers 2 w \<and> owned w userID = [] \<longrightarrow> fst (FetchBookmarks w userID) = Inr [])"
proof -
  let ?rows = "sort_key (bookmark_path w) (owned w userID)"
  let ?n = "length (owned w userID)"
  have sel: "SELECT_bookmarks w (\<lambda>b. b_user_id b = userID) = ?rows"
    by (simp add: SELECT_bookmarks_def owned_def)
  have len: "2 * ?n + 2 = Suc (2 * length ?rows + 1)"
    by simp
  have ff: "first_fault (take (2 * ?n + 2) (faults w)) =
      (if fails w then Some 0
       else map_option Suc (first_fault (take (2 * length ?rows + 1) (faults (tick w)))))"
    unfolding len by (rule first_fault_take_Suc)
  have main: "case first_fault (take (2 * ?n + 2) (faults w)) of
      None \<Rightarrow> fst (FetchBookmarks w userID) = Inr (map (bookmark_of userID) ?rows)
    | Some j \<Rightarrow> if even j then fst (FetchBookmarks w userID) = Inl ErrDriver else True"
    and st: "store (snd (FetchBookmarks w userID)) = store w"
    unfolding ff
    by (simp_all add: FetchBookmarks_def db_Query_def sel FetchBookmarks_loop_exact
        split: option.splits)
  have all: "fst (FetchBookmarks w userID) = Inr (map (bookmark_of userID) ?rows)"
    if "answers (2 * ?n + 2) w"
    using main that by (simp add: answers_first_fault)
  have ordered: "fst (FetchBookmarks w userID) = Inr (map (bookmark_of userID) (owned w userID))"
    if "answers (2 * ?n + 2) w" "sorted (map (bookmark_path w) (owned w userID))"
    using all [OF that(1)] that(2) by (simp add: sort_key_id_if_sorted)
  have empty: "fst (FetchBookmarks w userID) = Inr []"
    if "answers 2 w" "owned w userID = []"
    using all that by (simp add: numeral_2_eq_2)
  from main st ordered empty show ?thesis
    by blast
qed

theorem FetchBookmarks_store_order_witness:
  "fst (FetchBookmarks (example_world [] []) 1) =
     Inr [\<lparr>BID = 1, UserID = 1, Title = ''OpenAI'', URL = ''https://openai.com'',
           CreatedAt = Instant 100\<rparr>,
          \<lparr>BID = 3, UserID = 1, Title = ''Docs'', URL = ''https://go.dev/doc'',
           CreatedAt = Instant 102\<rparr>] \<and>
   fst (FetchBookmarks (example_world [True] []) 1) = Inl ErrDriver \<and>
   fst (FetchBookmarks (example_world [False, False, False, False, True] []) 1) =
     Inl ErrDriver \<and>
   fst (FetchBookmarks (example_world [] []) 3) = Inr []"
  using FetchBookmarks_store_order [where userID = 1 and w = "example_world [] []"]
    FetchBookmarks_store_order [where userID = 1 and w = "example_world [True] []"]
    FetchBookmarks_store_order [where userID = 1 and w = "example_world [False, False, False, False, True] []"]
    FetchBookmarks_store_order [where userID = 3 and w = "example_world [] []"]
  by (simp add: example_world_def example_tables_def owned_def answers_def bookmark_of_def)

text \<open>
  The claim as stated fails. Ada's bookmarks were inserted as 1 then 3; a store that
  answers every call but reads bookmarks by title yields 3 then 1, and that is what
  \<open>FetchBookmarks\<close> returns.
\<close>

theorem FetchBookmarks_insertion_order_counterexample:
  "answers 6 ((example_world [] [])\<lparr>bookmark_path := title_key\<rparr>) \<and>
   map b_id (owned ((example_world [] [])\<lparr>bookmark_path := title_key\<rparr>) 1) = [1, 3] \<and>
   fst (FetchBookmarks ((example_world [] [])\<lparr>bookmark_path := title_key\<rparr>) 1) =
     Inr [\<lparr>BID = 3, UserID = 1, Title = ''Docs'', URL = ''https://go.dev/doc'',
           CreatedAt = Instant 102\<rparr>,
          \<lparr>BID = 1, UserID = 1, Title = ''OpenAI'', URL = ''https://openai.com'',
           CreatedAt = Instant 100\<rparr>]"
  by (simp add: example_world_def example_tables_def answers_def owned_def FetchBookmarks_def
      db_Query_def SELECT_bookmarks_def rows_Next_def rows_Scan_def fails_def tick_def
      title_key_def)

lemma rand_Read_faults:
  "rand_Read n w = (r, w1) \<Longrightarrow>
   faults w1 = faults w \<and> email_collation w1 = email_collation w"
  by (auto simp: rand_Read_def split: list.splits if_splits)

section \<open>Creating an account\<close>

lemma CreateUser_exact:
  "(case CreateUser w name email of
      (r, w') \<Rightarrow>
        if fails w then r = Inl ErrDriver \<and> store w' = store w
        else if \<exists>u \<in> set (users (store w)). email_collation w (u_email u) email
        then r = Inl ErrEmailTaken \<and> store w' = store w
        else
          (case rand_Read 32 (tick w) of
             (Inl err, w2) \<Rightarrow>
               r = Inl (Errorf ''could not generate API key: %w'' [] err) \<and> store w' = store w
           | (Inr bytes, w2) \<Rightarrow>
               if fails (tick w) then r = Inl ErrDriver \<and> store w' = store w
               else
                 length bytes = 32 \<and>
                 store w' =
                   (store w)\<lparr>users := users (store w) @
                       [\<lparr>u_id = next_user_id (store w), u_name = name, u_email = email,
                         u_api_key = Some (hex_EncodeToString bytes)\<rparr>],
                     next_user_id := next_user_id (store w) + 1\<rparr> \<and>
                 (if fails (tick (tick w)) then r = Inl ErrDriver
                  else r = Inr \<lparr>ID = next_user_id (store w), Name = name, Email = email,
                                APIKey = hex_EncodeToString bytes\<rparr>)))"
proof (cases "fails w \<or> (\<exists>u \<in> set (users (store w)). email_collation w (u_email u) email)")
  case True
  then show ?thesis
    by (auto simp: CreateUser_def QueryRow_Scan_def)
next
  case False
  obtain g w2 where rd: "rand_Read 32 (tick w) = (g, w2)"
    by (cases "rand_Read 32 (tick w)")
  from rand_Read_frame [OF rd] have st2: "store w2 = store w" and f2: "fails w2 = fails (tick w)"
    and t2: "tick w2 = (tick (tick w))\<lparr>entropy := entropy w2\<rparr>"
    by simp_all
  show ?thesis
  proof (cases g)
    case (Inl e)
    with False rd st2 show ?thesis
      by (simp add: CreateUser_def QueryRow_Scan_def generateAPIKey_def)
  next
    case (Inr bytes)
    with rd have len: "length bytes = 32"
      by (simp add: rand_Read_length)
    show ?thesis
    proof (cases "fails (tick w)")
      case True
      with False rd Inr st2 f2 show ?thesis
        by (simp add: CreateUser_def QueryRow_Scan_def generateAPIKey_def db_Exec_def)
    next
      case nf2: False
      have f3: "fails (tick w2) = fails (tick (tick w))"
        unfolding t2 by simp
      from False rd Inr st2 f2 nf2 f3 len show ?thesis
        by (simp add: CreateUser_def QueryRow_Scan_def generateAPIKey_def db_Exec_def
            INSERT_users_def LastInsertId_def)
    qed
  qed
qed

lemma CreateUser_collation:
  "email_collation (snd (CreateUser w name email)) = email_collation w"
proof -
  have tk: "email_collation (tick v) = email_collation v" for v
    by (simp add: tick_def)
  obtain g w2 where rd: "rand_Read 32 (tick w) = (g, w2)"
    by (cases "rand_Read 32 (tick w)")
  from rand_Read_faults [OF rd] have "email_collation w2 = email_collation w"
    by (simp add: tk)
  with rd show ?thesis
    by (auto simp: CreateUser_def QueryRow_Scan_def generateAPIKey_def db_Exec_def
        LastInsertId_def tk split: prod.splits sum.splits)
qed


text \<open>
  C4. \<open>CreateUser\<close> asks the store first whether the email is present (in the collation
  of the column). If the store answers and it is present, the result is
  \<open>ErrEmailTaken\<close> and the store is unchanged. If it is absent, the entropy source
  supplies 32 bytes and the store answers the INSERT and \<^verbatim>\<open>LastInsertId\<close>,
  \<open>CreateUser\<close> succeeds: the store has one more row holding the given name, the given
  email and the rendering of those bytes under the identifier the store assigned, and the
  returned account carries the same four values. Every other outcome is an error, named
  here with what it leaves in the store. After a success, a second \<open>CreateUser\<close> with the
  same email fails, with \<open>ErrEmailTaken\<close> whenever the store answers the uniqueness
  query, and changes nothing: exactly one account with that email is stored.
\<close>

theorem CreateUser_contract:
  "(case CreateUser w name email of
      (r, w') \<Rightarrow>
        if fails w then r = Inl ErrDriver \<and> store w' = store w
        else if \<exists>u \<in> set (users (store w)). email_collation w (u_email u) email
        then r = Inl ErrEmailTaken \<and> store w' = store w
        else
          (case rand_Read 32 (tick w) of
             (Inl err, w2) \<Rightarrow>
               r = Inl (Errorf ''could not generate API key: %w'' [] err) \<and> store w' = store w
           | (Inr bytes, w2) \<Rightarrow>
               if fails (tick w) then r = Inl ErrDriver \<and> store w' = store w
               else
                 length bytes = 32 \<and>
                 store w' =
                   (store w)\<lparr>users := users (store w) @
                       [\<lparr>u_id = next_user_id (store w), u_name = name, u_email = email,
                         u_api_key = Some (hex_EncodeToString bytes)\<rparr>],
                     next_user_id := next_user_id (store w) + 1\<rparr> \<and>
                 (if fails (tick (tick w)) then r = Inl ErrDriver
                  else r = Inr \<lparr>ID = next_user_id (store w), Name = name, Email = email,
                                APIKey = hex_EncodeToString bytes\<rparr>))) \<and>
   (\<not> fails w \<and> email_collation w email email \<and>
    (\<exists>u \<in> set (users (store w)). u_email u = email) \<longrightarrow>
      fst (CreateUser w name email) = Inl ErrEmailTaken \<and>
      store (snd (CreateUser w name email)) = store w) \<and>
   (\<forall>u w1. CreateUser w name email = (Inr u, w1) \<and> email_collation w email email \<longrightarrow>
      (\<forall>name2.
         fst (CreateUser w1 name2 email) = Inl (if fails w1 then ErrDriver else ErrEmailTaken) \<and>
         store (snd (CreateUser w1 name2 email)) = store w1) \<and>
      length (filter (\<lambda>r. email_collation w (u_email r) email) (users (store w1))) = 1 \<and>
      length (filter (\<lambda>r. u_email r = email) (users (store w1))) = 1)"
proof (intro conjI allI impI)
  show "case CreateUser w name email of
      (r, w') \<Rightarrow>
        if fails w then r = Inl ErrDriver \<and> store w' = store w
        else if \<exists>u \<in> set (users (store w)). email_collation w (u_email u) email
        then r = Inl ErrEmailTaken \<and> store w' = store w
        else
          (case rand_Read 32 (tick w) of
             (Inl err, w2) \<Rightarrow>
               r = Inl (Errorf ''could not generate API key: %w'' [] err) \<and> store w' = store w
           | (Inr bytes, w2) \<Rightarrow>
               if fails (tick w) then r = Inl ErrDriver \<and> store w' = store w
               else
                 length bytes = 32 \<and>
                 store w' =
                   (store w)\<lparr>users := users (store w) @
                       [\<lparr>u_id = next_user_id (store w), u_name = name, u_email = email,
                         u_api_key = Some (hex_EncodeToString bytes)\<rparr>],
                     next_user_id := next_user_id (store w) + 1\<rparr> \<and>
                 (if fails (tick (tick w)) then r = Inl ErrDriver
                  else r = Inr \<lparr>ID = next_user_id (store w), Name = name, Email = email,
                                APIKey = hex_EncodeToString bytes\<rparr>))"
    by (rule CreateUser_exact)
next
  assume "\<not> fails w \<and> email_collation w email email \<and>
    (\<exists>u \<in> set (users (store w)). u_email u = email)"
  then have nf: "\<not> fails w"
    and present: "\<exists>u \<in> set (users (store w)). email_collation w (u_email u) email"
    by auto
  obtain r0 w0 where run0: "CreateUser w name email = (r0, w0)"
    by (cases "CreateUser w name email")
  from CreateUser_exact [where w = w and name = name and email = email]
  have "r0 = Inl ErrEmailTaken \<and> store w0 = store w"
    unfolding run0 using nf present by simp
  then show "fst (CreateUser w name email) = Inl ErrEmailTaken"
    and "store (snd (CreateUser w name email)) = store w"
    unfolding run0 by simp_all
next
  fix u w1
  assume "CreateUser w name email = (Inr u, w1) \<and> email_collation w email email"
  then have ok: "CreateUser w name email = (Inr u, w1)"
    and refl: "email_collation w email email"
    by simp_all
  from CreateUser_exact [where w = w and name = name and email = email] ok
  have fresh: "\<not> (\<exists>r \<in> set (users (store w)). email_collation w (u_email r) email)"
    by (auto split: if_splits)
  from CreateUser_exact [where w = w and name = name and email = email] ok fresh
  obtain k where st1: "store w1 =
      (store w)\<lparr>users := users (store w) @
          [\<lparr>u_id = next_user_id (store w), u_name = name, u_email = email,
            u_api_key = Some k\<rparr>],
        next_user_id := next_user_id (store w) + 1\<rparr>"
    by (auto split: if_splits prod.splits sum.splits)
  from CreateUser_collation [where w = w and name = name and email = email] ok
  have col: "email_collation w1 = email_collation w"
    by simp
  show "length (filter (\<lambda>r. email_collation w (u_email r) email) (users (store w1))) = 1"
    using fresh refl st1 by (simp add: filter_empty_conv)
  have "\<not> (\<exists>r \<in> set (users (store w)). u_email r = email)"
    using fresh refl by auto
  then show "length (filter (\<lambda>r. u_email r = email) (users (store w1))) = 1"
    using st1 by (simp add: filter_empty_conv)
  fix name2
  have taken: "\<exists>r \<in> set (users (store w1)). email_collation w1 (u_email r) email"
    using st1 refl col by simp
  obtain r2 w2 where run2: "CreateUser w1 name2 email = (r2, w2)"
    by (cases "CreateUser w1 name2 email")
  from CreateUser_exact [where w = w1 and name = name2 and email = email]
  have "if fails w1 then r2 = Inl ErrDriver \<and> store w2 = store w1
        else r2 = Inl ErrEmailTaken \<and> store w2 = store w1"
    unfolding run2 using taken by (cases "fails w1") simp_all
  then show "fst (CreateUser w1 name2 email) = Inl (if fails w1 then ErrDriver else ErrEmailTaken)"
    and "store (snd (CreateUser w1 name2 email)) = store w1"
    unfolding run2 by (simp_all split: if_splits)
qed

lemma collation_example:
  "email_collation (example_world fs es) = (=)" "title_collation (example_world fs es) = (=)"
  by (simp_all add: example_world_def)

theorem CreateUser_contract_witness:
  "fst (CreateUser (example_world [] [example_bytes]) ''Eve'' ''ada@example.com'') =
     Inl ErrEmailTaken \<and>
   fst (CreateUser (example_world [] [example_bytes]) ''Dee'' ''dee@example.com'') =
     Inr \<lparr>ID = 4, Name = ''Dee'', Email = ''dee@example.com'', APIKey = example_key\<rparr> \<and>
   map u_email (users (store (snd (CreateUser (example_world [] [example_bytes]) ''Dee''
                                     ''dee@example.com'')))) =
     [''ada@example.com'', ''bob@example.com'', ''cy@example.com'', ''dee@example.com''] \<and>
   fst (CreateUser (snd (CreateUser (example_world [] [example_bytes]) ''Dee''
                           ''dee@example.com'')) ''Dee again'' ''dee@example.com'') =
     Inl ErrEmailTaken \<and>
   length (filter (\<lambda>r. u_email r = ''dee@example.com'')
             (users (store (snd (CreateUser (example_world [] [example_bytes]) ''Dee''
                                   ''dee@example.com''))))) = 1"
proof -
  let ?w = "example_world [] [example_bytes]"
  let ?u = "\<lparr>ID = 4, Name = ''Dee'', Email = ''dee@example.com'', APIKey = example_key\<rparr>"
  let ?w1 = "(example_world [] [])\<lparr>store :=
               snd (INSERT_users ''Dee'' ''dee@example.com'' example_key example_tables)\<rparr>"
  have run: "CreateUser ?w ''Dee'' ''dee@example.com'' = (Inr ?u, ?w1)"
    by (simp add: CreateUser_def QueryRow_Scan_def example_simps collation_example
        generateAPIKey_example db_Exec_def LastInsertId_def example_tables_def INSERT_users_def)
  have nf: "\<not> fails ?w" and nf1: "\<not> fails ?w1"
    by (simp_all add: example_simps)
  have taken: "\<exists>u \<in> set (users (store ?w)). email_collation ?w (u_email u) ''ada@example.com''"
    by (simp add: example_simps collation_example) (simp add: example_tables_def)
  have first: "fst (CreateUser ?w ''Eve'' ''ada@example.com'') = Inl ErrEmailTaken"
    using CreateUser_contract [where w = ?w and name = "''Eve''" and email = "''ada@example.com''"]
      nf taken
    by (auto split: prod.splits)
  have "fst (CreateUser ?w1 ''Dee again'' ''dee@example.com'') =
          Inl (if fails ?w1 then ErrDriver else ErrEmailTaken) \<and>
        length (filter (\<lambda>r. u_email r = ''dee@example.com'') (users (store ?w1))) = 1"
    using CreateUser_contract [where w = ?w and name = "''Dee''" and email = "''dee@example.com''"]
      run
    by (simp add: collation_example)
  moreover have "map u_email (users (store ?w1)) =
      [''ada@example.com'', ''bob@example.com'', ''cy@example.com'', ''dee@example.com'']"
    by (simp add: INSERT_users_def example_tables_def)
  ultimately show ?thesis
    using nf1 first by (simp only: run fst_conv snd_conv if_False simp_thms)
qed

section \<open>Rotating a key\<close>





section \<open>Rotating the key of an account that does not exist\<close>

text \<open>
  C10. For an identifier that no stored account has, \<open>RegenerateAPIKey\<close> still returns
  the key it generated and no error, whenever the entropy source supplies 32 bytes and the
  store answers the UPDATE; the UPDATE matches no row and the store is unchanged. A
  successful result therefore says neither that the account exists nor that any stored key
  is the returned one.
\<close>

theorem RegenerateAPIKey_unknown_account:
  assumes "userID \<notin> u_id ` set (users (store w))"
    and "fst (rand_Read 32 w) = Inr bytes"
    and "\<not> fails w"
  shows "fst (RegenerateAPIKey w userID) = Inr (hex_EncodeToString bytes) \<and>
         store (snd (RegenerateAPIKey w userID)) = store w"
proof -
  obtain w0 where rd: "rand_Read 32 w = (Inr bytes, w0)"
    using assms(2) by (cases "rand_Read 32 w") simp
  from rand_Read_frame [OF rd] assms(3) have "\<not> fails w0" and st: "store w0 = store w"
    by simp_all
  moreover have "map (\<lambda>u. if u_id u = userID then u\<lparr>u_api_key := Some k\<rparr> else u)
                   (users (store w)) = users (store w)" for k
    using assms(1) by (intro map_idI) auto
  ultimately show ?thesis
    using rd by (simp add: RegenerateAPIKey_def generateAPIKey_def db_Exec_def
        UPDATE_users_api_key_def)
qed

theorem RegenerateAPIKey_unknown_account_witness:
  "99 \<notin> u_id ` set (users example_tables) \<and>
   fst (RegenerateAPIKey (example_world [] [example_bytes]) 99) = Inr example_key \<and>
   store (snd (RegenerateAPIKey (example_world [] [example_bytes]) 99)) = example_tables \<and>
   Some example_key \<notin> u_api_key ` set (users example_tables)"
  using RegenerateAPIKey_unknown_account
    [of 99 "example_world [] [example_bytes]" example_bytes]
  by (simp add: rand_Read_example hex_example_bytes example_simps)
    (simp add: example_tables_def example_key_def)

section \<open>Creating a bookmark\<close>

lemma sort_key_Cons_ex: "xs \<noteq> [] \<Longrightarrow> \<exists>y ys. sort_key f xs = y # ys \<and> y \<in> set xs"
proof -
  assume "xs \<noteq> []"
  then have "sort_key f xs \<noteq> []"
    by (metis length_0_conv length_sort)
  then obtain y ys where "sort_key f xs = y # ys"
    by (cases "sort_key f xs") auto
  moreover from this have "y \<in> set xs"
    by (metis list.set_intros(1) set_sort)
  ultimately show ?thesis
    by auto
qed

text \<open>
  C6. \<open>CreateBookmark\<close> makes three calls: the INSERT, \<^verbatim>\<open>LastInsertId\<close> and the
  read of \<^verbatim>\<open>created_at\<close>. If any of them fails the result is an error and no
  bookmark; in particular a failed read-back gives an error although the row has been
  inserted. Otherwise the result is a bookmark with the identifier the store assigned,
  the given account, title and URL, and the \<^verbatim>\<open>created_at\<close> of a stored row with that
  identifier (the new row's own, when the identifier was not in use). A returned bookmark
  never has the zero time.
\<close>

theorem CreateBookmark_populated:
  "(case CreateBookmark w userID title url of
      (r, w') \<Rightarrow>
        if fails w then r = Inl ErrDriver \<and> store w' = store w
        else
          store w' =
            (store w)\<lparr>bookmarks := bookmarks (store w) @
                         [\<lparr>b_id = next_bookmark_id (store w), b_user_id = userID,
                           b_title = title, b_url = url, b_created_at = now (store w)\<rparr>],
                      next_bookmark_id := next_bookmark_id (store w) + 1\<rparr> \<and>
          (if fails (tick w) \<or> fails (tick (tick w)) then r = Inl ErrDriver
           else
             (\<exists>row \<in> set (bookmarks (store w')).
                b_id row = next_bookmark_id (store w) \<and>
                r = Inr \<lparr>BID = next_bookmark_id (store w), UserID = userID, Title = title,
                         URL = url, CreatedAt = Instant (b_created_at row)\<rparr>) \<and>
             (if next_bookmark_id (store w) \<in> b_id ` set (bookmarks (store w)) then True
              else r = Inr \<lparr>BID = next_bookmark_id (store w), UserID = userID, Title = title,
                            URL = url, CreatedAt = Instant (now (store w))\<rparr>)) \<and>
          (case r of Inl err \<Rightarrow> True | Inr bm \<Rightarrow> CreatedAt bm \<noteq> ZeroTime))"
proof (cases "fails w")
  case True
  then show ?thesis
    by (simp add: CreateBookmark_def db_Exec_def)
next
  case nf: False
  let ?new = "\<lparr>b_id = next_bookmark_id (store w), b_user_id = userID,
                b_title = title, b_url = url, b_created_at = now (store w)\<rparr>"
  let ?t = "(store w)\<lparr>bookmarks := bookmarks (store w) @ [?new],
                      next_bookmark_id := next_bookmark_id (store w) + 1\<rparr>"
  let ?w1 = "(tick w)\<lparr>store := ?t\<rparr>"
  let ?hit = "filter (\<lambda>b. b_id b = next_bookmark_id (store w)) (bookmarks ?t)"
  have ins: "db_Exec w (INSERT_bookmarks userID title url) =
               (Inr \<lparr>last_insert_id = next_bookmark_id (store w), rows_affected = 1\<rparr>, ?w1)"
    using nf by (simp add: db_Exec_def INSERT_bookmarks_def)
  show ?thesis
  proof (cases "fails (tick w) \<or> fails (tick (tick w))")
    case True
    then show ?thesis
      using nf ins
      by (auto simp: CreateBookmark_def LastInsertId_def QueryRow_Scan_def Let_def
          split: list.splits)
  next
    case False
    have "?hit \<noteq> []"
      by (simp add: filter_empty_conv)
    from sort_key_Cons_ex [OF this, of "bookmark_path w"] obtain y ys where
      srt: "sort_key (bookmark_path w) ?hit = y # ys" and y: "y \<in> set ?hit"
      by blast
    have fresh: "sort_key (bookmark_path w) ?hit = [?new]"
      if "next_bookmark_id (store w) \<notin> b_id ` set (bookmarks (store w))"
    proof -
      from that have "filter (\<lambda>b. b_id b = next_bookmark_id (store w)) (bookmarks (store w)) = []"
        by (auto simp: filter_empty_conv image_iff)
      then show ?thesis by simp
    qed
    have res: "CreateBookmark w userID title url =
           (Inr \<lparr>BID = next_bookmark_id (store w), UserID = userID, Title = title,
                 URL = url, CreatedAt = Instant (b_created_at y)\<rparr>, tick (tick ?w1))"
      using nf ins False srt
      by (simp add: CreateBookmark_def LastInsertId_def QueryRow_Scan_def Let_def
          SELECT_bookmarks_def)
    have "y \<in> set (bookmarks ?t)" and "b_id y = next_bookmark_id (store w)"
      using y by auto
    moreover have "y = ?new" if "next_bookmark_id (store w) \<notin> b_id ` set (bookmarks (store w))"
      using fresh [OF that] srt by simp
    ultimately show ?thesis
      using nf False res by auto
  qed
qed

theorem CreateBookmark_populated_witness:
  "fst (CreateBookmark (example_world [] []) 3 ''News'' ''https://example.com'') =
     Inr \<lparr>BID = 4, UserID = 3, Title = ''News'', URL = ''https://example.com'',
           CreatedAt = Instant 103\<rparr> \<and>
   fst (CreateBookmark (example_world [False, False, True] []) 3 ''News''
          ''https://example.com'') = Inl ErrDriver \<and>
   map b_id (bookmarks (store (snd (CreateBookmark (example_world [False, False, True] []) 3
                                      ''News'' ''https://example.com'')))) = [1, 2, 3, 4]"
  using CreateBookmark_populated [of "example_world [] []" 3 "''News''" "''https://example.com''"]
    CreateBookmark_populated
      [of "example_world [False, False, True] []" 3 "''News''" "''https://example.com''"]
  by (simp add: example_simps split: prod.splits) (auto simp: example_tables_def)

section \<open>The backfill sweep\<close>










lemma steps_done_0 [simp]: "steps_done es fs 0 = 0"
  by (simp add: steps_done_def)


lemma assigned_0 [simp]: "assigned t ids es 0 = t"
  by (simp add: assigned_def)











section \<open>The authenticated account in the request context\<close>

lemma strings_Split_no_sep: "sep \<notin> set s \<Longrightarrow> strings_Split s sep = [s]"
  by (induction s) auto

lemma strings_Split_Bearer:
  "CHR '' '' \<notin> set key \<Longrightarrow> strings_Split (''Bearer '' @ key) CHR '' '' = [''Bearer'', key]"
  by (simp add: strings_Split_no_sep)

lemma APIKeyMiddleware_accepts:
  assumes "Authorization r = ''Bearer '' @ key" and "CHR '' '' \<notin> set key"
    and "GetUserByAPIKey w key = (Inr user, w1)"
  shows "APIKeyMiddleware next w r =
           next w1 (r\<lparr>Context := (ContextKey ''user'', PtrUser user) # Context r\<rparr>)"
proof -
  have parts: "strings_Split (Authorization r) CHR '' '' = [''Bearer'', key]"
    unfolding assms(1) by (rule strings_Split_Bearer [OF assms(2)])
  have "Authorization r \<noteq> []"
    unfolding assms(1) by simp
  with parts assms(3) show ?thesis
    by (simp add: APIKeyMiddleware_def Let_def context_WithValue_def)
qed

text \<open>
  C2. \<open>APIKeyMiddleware\<close> stores the account under a key of its own type
  \<^verbatim>\<open>contextKey\<close>; the protected handlers look it up under the \<^verbatim>\<open>string\<close> key
  \<^verbatim>\<open>"user"\<close>. The two keys are never equal. So for every request that the
  middleware accepts and whose incoming context holds nothing under the string key, the
  lookup gives \<^verbatim>\<open>nil\<close> and the type assertion panics, in each of the three
  protected handlers: none of them retrieves the authenticated account.
\<close>

theorem protected_handlers_panic:
  assumes "Authorization r = ''Bearer '' @ key" and "CHR '' '' \<notin> set key"
    and "GetUserByAPIKey w key = (Inr user, w1)"
    and "ctx_Value (Context r) (StringKey ''user'') = nil"
  shows "fst (APIKeyMiddleware Handler_RegenerateAPIKey w r) =
           Panicked ''interface conversion: interface {} is nil, not *repository.User'' \<and>
         fst (APIKeyMiddleware Handler_CreateBookmark w r) =
           Panicked ''interface conversion: interface {} is nil, not *repository.User'' \<and>
         fst (APIKeyMiddleware Handler_ListBookmarksForCurrentUser w r) =
           Panicked ''interface conversion: interface {} is nil, not *repository.User''"
  using assms(4)
  by (simp add: APIKeyMiddleware_accepts [OF assms(1-3)] Handler_RegenerateAPIKey_def
      Handler_CreateBookmark_def Handler_ListBookmarksForCurrentUser_def assert_PtrUser_def)

theorem protected_handlers_panic_witness:
  "fst (GetUserByAPIKey (example_world [] []) ''k1'') =
     Inr \<lparr>ID = 1, Name = ''Ada'', Email = ''ada@example.com'', APIKey = ''k1''\<rparr> \<and>
   fst (APIKeyMiddleware Handler_RegenerateAPIKey (example_world [] [example_bytes])
          \<lparr>Authorization = ''Bearer k1'', Context = [(ForeignKey 0, OtherValue)],
           Body = None\<rparr>) =
     Panicked ''interface conversion: interface {} is nil, not *repository.User''"
proof -
  let ?r = "\<lparr>Authorization = ''Bearer k1'', Context = [(ForeignKey 0, OtherValue)],
              Body = None\<rparr>"
  let ?ada = "\<lparr>ID = 1, Name = ''Ada'', Email = ''ada@example.com'', APIKey = ''k1''\<rparr>"
  have get: "GetUserByAPIKey (example_world fs es) ''k1'' = (Inr ?ada, tick (example_world fs es))"
    if "\<not> fails (example_world fs es)" for fs es
    using that
    by (simp add: GetUserByAPIKey_def QueryRow_Scan_def SELECT_users_def)
      (simp add: example_world_def example_tables_def)
  have nf: "\<not> fails (example_world [] es)" for es
    by (simp add: example_simps)
  from protected_handlers_panic [of ?r "''k1''" "example_world [] [example_bytes]" ?ada,
      OF _ _ get [OF nf]]
  show ?thesis
    using get [OF nf, of "[]"] by simp
qed

end
